theory Spec2Isabelle
  imports Main
begin

section \<open>The user views of the forum (flaskbb/user/views.py)\<close>

text \<open>
  The module holds thin controllers: each view method validates a form or resolves
  records, calls collaborators (update handlers, the logger, the notification service,
  the file system, the token table) and answers with a rendered template or a redirect.

  The embedding passes the state explicitly.  Every view method is a function from the
  state before the request to its outcome and the state after it.  An outcome is either
  an exception that leaves the view (\<open>Inl\<close>) or the response it returns (\<open>Inr\<close>).
  Every call that has an effect outside the view appends one event to \<open>trace\<close>,
  in program order, so that the order of effects can be read off the final state.

  Collaborators whose code is not part of views.py (forms, update handlers,
  \<open>has_permission\<close>, \<open>safe_join\<close>, \<open>os.remove\<close>, \<open>get_byond_ckey\<close>,
  \<open>secrets.token_hex\<close>, the conversion \<open>int\<close>) are parameters of the model.
  All views carry \<open>decorators = [login_required]\<close>; the methods are modelled as they
  run once that decorator has admitted the request, with \<open>current_user\<close> the
  authenticated principal.
\<close>

subsection \<open>Data\<close>

text \<open>Rows of the tables the views read.  Only the columns views.py uses appear.
  The column \<open>id\<close> is written \<open>u_id\<close> and \<open>f_id\<close> (\<open>id\<close> is the identity
  function of HOL), the other columns get the same prefixes.\<close>

record User =
  u_id :: int
  u_username :: string
  u_discord :: string

record UploadedFile =
  f_id :: int
  f_user_id :: int
  f_current_name :: string

record Token =
  t_token :: string
  t_discord_user_id :: string

text \<open>\<open>StopValidation.reasons\<close>: pairs of an attribute name and a reason.\<close>

type_synonym reasons = "(string \<times> string) list"

text \<open>The exceptions that occur.  \<open>StopValidation\<close> and \<open>PersistenceError\<close> are the
  two classes views.py imports from \<open>core.exceptions\<close>; \<open>NotFound\<close> is what
  \<open>first_or_404\<close> and \<open>safe_join\<close> raise; \<open>KeyError\<close> is a missing configuration key;
  \<open>OSError\<close> is what \<open>os.remove\<close> raises; \<open>OtherError\<close> stands for any other class.\<close>

datatype exn =
    StopValidation reasons
  | PersistenceError
  | NotFound
  | KeyError string
  | OSError string
  | OtherError string

datatype url = Url_for string "(string \<times> int) list"

datatype response =
    Render_template string
  | Redirect url

text \<open>A flashed message.  \<open>Gettext s\<close> is \<open>_(s)\<close>.  The two messages of the token view
  are Russian text in the source; they are kept as constructors that carry the value
  formatted into them: \<open>Already_linked ckey\<close> ("your discord is already linked to the
  account ckey") and \<open>Your_token token\<close> ("your token is token; to link a BYOND
  account enter it with the console command .chaotic-token on one of our servers").\<close>

datatype message =
    Gettext string
  | Already_linked "string option"
  | Your_token string

text \<open>An argument of \<open>str.format\<close> in a log line: a record is formatted by its
  \<open>repr\<close>, which is not part of views.py, so the argument itself is kept.\<close>

datatype log_arg =
    Arg_file UploadedFile
  | Arg_user User
  | Arg_str string

datatype event =
    Validate_on_submit
  | Apply_changeset
  | Populate_errors reasons
  | Logger_exception string
  | Logger_warn string "log_arg list"
  | Logger_info string "log_arg list"
  | Flash message string
  | Os_remove string
  | Record_delete UploadedFile
  | Query_delete string
  | Session_add Token
  | Session_commit
  | Session_refresh Token
  | Session_expunge_all

record effects =
  trace :: "event list"

subsection \<open>Logging and notification\<close>

definition emit :: "event \<Rightarrow> 'a effects_scheme \<Rightarrow> 'a effects_scheme" where
  "emit e w = w\<lparr>trace := trace w @ [e]\<rparr>"

definition logger_exception :: "string \<Rightarrow> 'a effects_scheme \<Rightarrow> 'a effects_scheme" where
  "logger_exception msg w = emit (Logger_exception msg) w"

definition logger_warn :: "string \<Rightarrow> log_arg list \<Rightarrow> 'a effects_scheme \<Rightarrow> 'a effects_scheme" where
  "logger_warn fmt args w = emit (Logger_warn fmt args) w"

definition logger_info :: "string \<Rightarrow> log_arg list \<Rightarrow> 'a effects_scheme \<Rightarrow> 'a effects_scheme" where
  "logger_info fmt args w = emit (Logger_info fmt args) w"

text \<open>\<open>flash(message, category)\<close>; the category defaults to \<open>message\<close>.\<close>

definition flash :: "message \<Rightarrow> string \<Rightarrow> 'a effects_scheme \<Rightarrow> 'a effects_scheme" where
  "flash m category w = emit (Flash m category) w"

subsection \<open>The settings views\<close>

text \<open>The form of a settings view is an object of some type \<open>'f\<close> with three methods:
  \<open>validate_on_submit()\<close> answers whether the submitted input passes the form's own
  rules and may annotate the form, \<open>as_change()\<close> builds the change set, and
  \<open>populate_errors(reasons)\<close> writes reasons into the form.\<close>

record ('f, 'c) form_methods =
  validate_on_submit :: "'f \<Rightarrow> bool \<times> 'f"
  as_change :: "'f \<Rightarrow> 'c"
  populate_errors :: "reasons \<Rightarrow> 'f \<Rightarrow> 'f"

text \<open>The method \<open>apply_changeset(user, change)\<close> of an update handler, acting on the
  persistent state \<open>'db\<close>: it returns normally (\<open>None\<close>) or raises, and leaves a state
  behind in both cases.\<close>

type_synonym ('c, 'db) update_handler = "User \<Rightarrow> 'c \<Rightarrow> 'db \<Rightarrow> exn option \<times> 'db"

record ('f, 'db) settings_world = effects +
  form :: 'f
  db :: 'db

definition form_validate_on_submit ::
  "('f, 'c) form_methods \<Rightarrow> ('f, 'db) settings_world \<Rightarrow> bool \<times> ('f, 'db) settings_world" where
  "form_validate_on_submit F w =
     (case validate_on_submit F (form w) of
        (ok, f') \<Rightarrow> (ok, emit Validate_on_submit (w\<lparr>form := f'\<rparr>)))"

definition form_populate_errors ::
  "('f, 'c) form_methods \<Rightarrow> reasons \<Rightarrow> ('f, 'db) settings_world \<Rightarrow> ('f, 'db) settings_world" where
  "form_populate_errors F rs w =
     emit (Populate_errors rs) (w\<lparr>form := populate_errors F rs (form w)\<rparr>)"

definition apply_changeset ::
  "('c, 'db) update_handler \<Rightarrow> User \<Rightarrow> 'c \<Rightarrow> ('f, 'db) settings_world
     \<Rightarrow> exn option \<times> ('f, 'db) settings_world" where
  "apply_changeset handler user change w =
     (case handler user change (db w) of
        (raised, db') \<Rightarrow> (raised, emit Apply_changeset (w\<lparr>db := db'\<rparr>)))"

text \<open>class UserSettings\<close>

definition UserSettings_render :: "'w \<Rightarrow> (exn + response) \<times> 'w" where
  "UserSettings_render w = (Inr (Render_template ''user/general_settings.html''), w)"

definition UserSettings_redirect :: "'w \<Rightarrow> (exn + response) \<times> 'w" where
  "UserSettings_redirect w = (Inr (Redirect (Url_for ''user.settings'' [])), w)"

definition UserSettings_get :: "'w \<Rightarrow> (exn + response) \<times> 'w" where
  "UserSettings_get w = UserSettings_render w"

definition UserSettings_post ::
  "('f, 'c) form_methods \<Rightarrow> ('c, 'db) update_handler \<Rightarrow> User \<Rightarrow> ('f, 'db) settings_world
     \<Rightarrow> (exn + response) \<times> ('f, 'db) settings_world" where
  "UserSettings_post F settings_update_handler current_user w =
     (case form_validate_on_submit F w of
        (True, w1) \<Rightarrow>
          (case apply_changeset settings_update_handler current_user (as_change F (form w1)) w1 of
             (Some (StopValidation rs), w2) \<Rightarrow>
               UserSettings_render (form_populate_errors F rs w2)
           | (Some PersistenceError, w2) \<Rightarrow>
               UserSettings_redirect
                 (flash (Gettext ''Error while updating user settings'') ''danger''
                   (logger_exception ''Error while updating user settings'' w2))
           | (Some e, w2) \<Rightarrow> (Inl e, w2)
           | (None, w2) \<Rightarrow>
               UserSettings_redirect (flash (Gettext ''Settings updated.'') ''success'' w2))
      | (False, w1) \<Rightarrow> UserSettings_render w1)"

text \<open>class ChangePassword\<close>

definition ChangePassword_render :: "'w \<Rightarrow> (exn + response) \<times> 'w" where
  "ChangePassword_render w = (Inr (Render_template ''user/change_password.html''), w)"

definition ChangePassword_redirect :: "'w \<Rightarrow> (exn + response) \<times> 'w" where
  "ChangePassword_redirect w = (Inr (Redirect (Url_for ''user.change_password'' [])), w)"

definition ChangePassword_get :: "'w \<Rightarrow> (exn + response) \<times> 'w" where
  "ChangePassword_get w = ChangePassword_render w"

definition ChangePassword_post ::
  "('f, 'c) form_methods \<Rightarrow> ('c, 'db) update_handler \<Rightarrow> User \<Rightarrow> ('f, 'db) settings_world
     \<Rightarrow> (exn + response) \<times> ('f, 'db) settings_world" where
  "ChangePassword_post F password_update_handler current_user w =
     (case form_validate_on_submit F w of
        (True, w1) \<Rightarrow>
          (case apply_changeset password_update_handler current_user (as_change F (form w1)) w1 of
             (Some (StopValidation rs), w2) \<Rightarrow>
               ChangePassword_render (form_populate_errors F rs w2)
           | (Some PersistenceError, w2) \<Rightarrow>
               ChangePassword_redirect
                 (flash (Gettext ''Error while changing password'') ''danger''
                   (logger_exception ''Error while changing password'' w2))
           | (Some e, w2) \<Rightarrow> (Inl e, w2)
           | (None, w2) \<Rightarrow>
               ChangePassword_redirect (flash (Gettext ''Password updated.'') ''success'' w2))
      | (False, w1) \<Rightarrow> ChangePassword_render w1)"

text \<open>class ChangeEmail\<close>

definition ChangeEmail_render :: "'w \<Rightarrow> (exn + response) \<times> 'w" where
  "ChangeEmail_render w = (Inr (Render_template ''user/change_email.html''), w)"

definition ChangeEmail_redirect :: "'w \<Rightarrow> (exn + response) \<times> 'w" where
  "ChangeEmail_redirect w = (Inr (Redirect (Url_for ''user.change_email'' [])), w)"

definition ChangeEmail_get :: "'w \<Rightarrow> (exn + response) \<times> 'w" where
  "ChangeEmail_get w = ChangeEmail_render w"

definition ChangeEmail_post ::
  "('f, 'c) form_methods \<Rightarrow> ('c, 'db) update_handler \<Rightarrow> User \<Rightarrow> ('f, 'db) settings_world
     \<Rightarrow> (exn + response) \<times> ('f, 'db) settings_world" where
  "ChangeEmail_post F update_email_handler current_user w =
     (case form_validate_on_submit F w of
        (True, w1) \<Rightarrow>
          (case apply_changeset update_email_handler current_user (as_change F (form w1)) w1 of
             (Some (StopValidation rs), w2) \<Rightarrow>
               ChangeEmail_render (form_populate_errors F rs w2)
           | (Some PersistenceError, w2) \<Rightarrow>
               ChangeEmail_redirect
                 (flash (Gettext ''Error while updating email'') ''danger''
                   (logger_exception ''Error while updating email'' w2))
           | (Some e, w2) \<Rightarrow> (Inl e, w2)
           | (None, w2) \<Rightarrow>
               ChangeEmail_redirect (flash (Gettext ''Email address updated.'') ''success'' w2))
      | (False, w1) \<Rightarrow> ChangeEmail_render w1)"

text \<open>class ChangeUserDetails\<close>

definition ChangeUserDetails_render :: "'w \<Rightarrow> (exn + response) \<times> 'w" where
  "ChangeUserDetails_render w = (Inr (Render_template ''user/change_user_details.html''), w)"

definition ChangeUserDetails_redirect :: "'w \<Rightarrow> (exn + response) \<times> 'w" where
  "ChangeUserDetails_redirect w = (Inr (Redirect (Url_for ''user.change_user_details'' [])), w)"

definition ChangeUserDetails_get :: "'w \<Rightarrow> (exn + response) \<times> 'w" where
  "ChangeUserDetails_get w = ChangeUserDetails_render w"

definition ChangeUserDetails_post ::
  "('f, 'c) form_methods \<Rightarrow> ('c, 'db) update_handler \<Rightarrow> User \<Rightarrow> ('f, 'db) settings_world
     \<Rightarrow> (exn + response) \<times> ('f, 'db) settings_world" where
  "ChangeUserDetails_post F details_update_handler current_user w =
     (case form_validate_on_submit F w of
        (True, w1) \<Rightarrow>
          (case apply_changeset details_update_handler current_user (as_change F (form w1)) w1 of
             (Some (StopValidation rs), w2) \<Rightarrow>
               ChangeUserDetails_render (form_populate_errors F rs w2)
           | (Some PersistenceError, w2) \<Rightarrow>
               ChangeUserDetails_redirect
                 (flash (Gettext ''Error while updating user details'') ''danger''
                   (logger_exception ''Error while updating user details'' w2))
           | (Some e, w2) \<Rightarrow> (Inl e, w2)
           | (None, w2) \<Rightarrow>
               ChangeUserDetails_redirect (flash (Gettext ''User details updated.'') ''success'' w2))
      | (False, w1) \<Rightarrow> ChangeUserDetails_render w1)"

subsection \<open>Deleting an uploaded file\<close>

text \<open>What \<open>DeleteFile.post\<close> takes from the framework and the operating system:
  the query string, the conversion \<open>int\<close> applied to a query value (\<open>None\<close> is
  \<open>ValueError\<close>), \<open>has_permission\<close>, the application's configuration, \<open>safe_join\<close>
  (\<open>None\<close> is the \<open>NotFound\<close> it raises when it rejects the join) and \<open>os.remove\<close> on
  a file system of some type \<open>'fs\<close> (it may raise, and leaves a file system behind in
  both cases).\<close>

record 'fs flask =
  request_args :: "string \<rightharpoonup> string"
  to_int :: "string \<Rightarrow> int option"
  has_permission :: "User \<Rightarrow> string \<Rightarrow> bool"
  config :: "string \<rightharpoonup> string"
  safe_join :: "string \<Rightarrow> string list \<Rightarrow> string option"
  os_remove :: "string \<Rightarrow> 'fs \<Rightarrow> exn option \<times> 'fs"

record 'fs uploads_world = effects +
  uploaded_files :: "UploadedFile list"
  users :: "User list"
  filesystem :: 'fs

text \<open>\<open>request.args.get(key, default, type=conv)\<close>: the default when the key is
  absent or the conversion raises \<open>ValueError\<close>.\<close>

definition args_get ::
  "(string \<rightharpoonup> string) \<Rightarrow> string \<Rightarrow> int \<Rightarrow> (string \<Rightarrow> int option) \<Rightarrow> int" where
  "args_get args key dflt conv =
     (case args key of
        None \<Rightarrow> dflt
      | Some s \<Rightarrow> (case conv s of None \<Rightarrow> dflt | Some v \<Rightarrow> v))"

text \<open>\<open>query.filter_by(...).first_or_404()\<close> on the rows the filter selects.\<close>

definition first_or_404 :: "'a list \<Rightarrow> exn + 'a" where
  "first_or_404 rows = (case rows of [] \<Rightarrow> Inl NotFound | r # _ \<Rightarrow> Inr r)"

definition remove_path ::
  "'fs flask \<Rightarrow> string \<Rightarrow> 'fs uploads_world \<Rightarrow> exn option \<times> 'fs uploads_world" where
  "remove_path env path w =
     (case os_remove env path (filesystem w) of
        (raised, fs') \<Rightarrow> (raised, emit (Os_remove path) (w\<lparr>filesystem := fs'\<rparr>)))"

text \<open>Modelled from the spec: \<open>UploadedFile.delete\<close> (flaskbb.forum.models is not among
  the sources).  "Delete the record": the row with the record's identity leaves the
  table.\<close>

definition record_delete :: "UploadedFile \<Rightarrow> 'fs uploads_world \<Rightarrow> 'fs uploads_world" where
  "record_delete r w =
     emit (Record_delete r)
       (w\<lparr>uploaded_files := filter (\<lambda>f. f_id f \<noteq> f_id r) (uploaded_files w)\<rparr>)"

definition DeleteFile_file_id :: "'fs flask \<Rightarrow> int" where
  "DeleteFile_file_id env = args_get (request_args env) ''file_id'' 0 (to_int env)"

definition DeleteFile_redirect :: "'w \<Rightarrow> (exn + response) \<times> 'w" where
  "DeleteFile_redirect w = (Inr (Redirect (Url_for ''user.user_uploads'' [])), w)"

definition DeleteFile_post ::
  "'fs flask \<Rightarrow> User \<Rightarrow> 'fs uploads_world \<Rightarrow> (exn + response) \<times> 'fs uploads_world" where
  "DeleteFile_post env current_user w =
     (case first_or_404 (filter (\<lambda>f. f_id f = DeleteFile_file_id env) (uploaded_files w)) of
        Inl e \<Rightarrow> (Inl e, w)
      | Inr file_record \<Rightarrow>
     (case first_or_404 (filter (\<lambda>u. u_id u = f_user_id file_record) (users w)) of
        Inl e \<Rightarrow> (Inl e, w)
      | Inr file_owner \<Rightarrow>
     if \<not> (u_id file_owner = u_id current_user \<or> has_permission env current_user ''admin'') then
       DeleteFile_redirect
         (logger_warn ''File {}(owned by:{}, discord:{}) was tried to be deleted by {}(discord:{})''
            [Arg_file file_record, Arg_user file_owner, Arg_str (u_discord file_owner),
             Arg_str (u_username current_user), Arg_str (u_discord current_user)] w)
     else
     (case config env ''UPLOAD_FOLDER'' of
        None \<Rightarrow> (Inl (KeyError ''UPLOAD_FOLDER''), w)
      | Some upload_folder \<Rightarrow>
     (case safe_join env upload_folder [u_discord file_owner, f_current_name file_record] of
        None \<Rightarrow> (Inl NotFound, w)
      | Some path \<Rightarrow>
     (case remove_path env path
             (logger_info ''File {}(owned by:{}, discord:{})) was deleted by {}(discord:{})''
                [Arg_file file_record, Arg_user file_owner, Arg_str (u_discord file_owner),
                 Arg_str (u_username current_user), Arg_str (u_discord current_user)] w) of
        (Some e, w1) \<Rightarrow> (Inl e, w1)
      | (None, w1) \<Rightarrow>
          DeleteFile_redirect
            (flash (Gettext ''File deleted.'') ''success'' (record_delete file_record w1)))))))"

subsection \<open>Generating a linking token\<close>

text \<open>The token table of the hub database as the request's session sees it, and the
  objects added to the session that the next commit inserts.\<close>

record hub_world = effects +
  tokens :: "Token list"
  session_new :: "Token list"

text \<open>Truth value of what \<open>get_byond_ckey\<close> returns: \<open>None\<close> and the empty string are
  false.\<close>

definition truthy :: "string option \<Rightarrow> bool" where
  "truthy v = (case v of None \<Rightarrow> False | Some s \<Rightarrow> s \<noteq> [])"

text \<open>\<open>Token.query.filter(Token.discord_user_id == key).delete()\<close>\<close>

definition Token_query_delete :: "string \<Rightarrow> hub_world \<Rightarrow> hub_world" where
  "Token_query_delete key w =
     emit (Query_delete key)
       (w\<lparr>tokens := filter (\<lambda>t. t_discord_user_id t \<noteq> key) (tokens w)\<rparr>)"

definition session_add :: "Token \<Rightarrow> hub_world \<Rightarrow> hub_world" where
  "session_add t w = emit (Session_add t) (w\<lparr>session_new := session_new w @ [t]\<rparr>)"

definition session_commit :: "hub_world \<Rightarrow> hub_world" where
  "session_commit w =
     emit Session_commit (w\<lparr>tokens := tokens w @ session_new w, session_new := []\<rparr>)"

definition session_refresh :: "Token \<Rightarrow> hub_world \<Rightarrow> hub_world" where
  "session_refresh t w = emit (Session_refresh t) w"

definition session_expunge_all :: "hub_world \<Rightarrow> hub_world" where
  "session_expunge_all w = emit Session_expunge_all w"

definition GenerateToken_redirect :: "User \<Rightarrow> 'w \<Rightarrow> (exn + response) \<times> 'w" where
  "GenerateToken_redirect current_user w =
     (Inr (Redirect (Url_for ''user.profile'' [(''userid'', u_id current_user)])), w)"

text \<open>\<open>GenerateToken.get(userid)\<close>; the route argument \<open>userid\<close> is not used by the
  method.  \<open>token_hex\<close> is \<open>secrets.token_hex\<close>.\<close>

definition GenerateToken_get ::
  "(User \<Rightarrow> string option) \<Rightarrow> (nat \<Rightarrow> string) \<Rightarrow> User \<Rightarrow> string \<Rightarrow> hub_world
     \<Rightarrow> (exn + response) \<times> hub_world" where
  "GenerateToken_get get_byond_ckey token_hex current_user userid w =
     (if truthy (get_byond_ckey current_user) then
        GenerateToken_redirect current_user
          (flash (Already_linked (get_byond_ckey current_user)) ''message'' w)
      else
        (let w1 = Token_query_delete (u_discord current_user) w;
             new_token = \<lparr>t_token = token_hex 16, t_discord_user_id = u_discord current_user\<rparr>;
             w2 = session_add new_token w1;
             w3 = session_commit w2;
             w4 = session_refresh new_token w3;
             w5 = session_expunge_all w4;
             w6 = flash (Your_token (t_token new_token)) ''message'' w5
         in GenerateToken_redirect current_user w6))"

text \<open>The tokens held for an external identity, and the invariant that no identity
  has more than one.\<close>

definition tokens_for :: "string \<Rightarrow> Token list \<Rightarrow> Token list" where
  "tokens_for key ts = filter (\<lambda>t. t_discord_user_id t = key) ts"

definition one_token_each :: "Token list \<Rightarrow> bool" where
  "one_token_each ts = list_all (\<lambda>t. length (tokens_for (t_discord_user_id t) ts) \<le> 1) ts"

subsection \<open>Example collaborators and states\<close>

text \<open>Concrete collaborators on which the views can be run.  The form holds one entered
  value; it is syntactically valid when the value is not empty.  The handler keeps the
  list of addresses in use: it rejects an address already in use, fails to persist one
  longer than eight characters, and stores any other.\<close>

record ex_form =
  entered :: string
  errors :: reasons

definition ex_form_methods :: "(ex_form, string) form_methods" where
  "ex_form_methods =
     \<lparr>validate_on_submit =
        (\<lambda>f. if entered f = [] then (False, f\<lparr>errors := [(''email'', ''required'')]\<rparr>)
             else (True, f)),
      as_change = entered,
      populate_errors = (\<lambda>rs f. f\<lparr>errors := errors f @ rs\<rparr>)\<rparr>"

definition ex_handler :: "(string, string list) update_handler" where
  "ex_handler user change emails =
     (if change \<in> set emails then (Some (StopValidation [(''email'', ''in use'')]), emails)
      else if 8 < length change then (Some PersistenceError, emails)
      else (None, change # emails))"

definition ex_settings_world :: "string \<Rightarrow> (ex_form, string list) settings_world" where
  "ex_settings_world e = \<lparr>trace = [], form = \<lparr>entered = e, errors = []\<rparr>, db = [''a@x.io'']\<rparr>"

definition ex_alice :: User where
  "ex_alice = \<lparr>u_id = 1, u_username = ''alice'', u_discord = ''1001''\<rparr>"

definition ex_bob :: User where
  "ex_bob = \<lparr>u_id = 2, u_username = ''bob'', u_discord = ''1002''\<rparr>"

definition ex_root :: User where
  "ex_root = \<lparr>u_id = 3, u_username = ''root'', u_discord = ''1003''\<rparr>"

text \<open>A reading of unsigned decimal numerals, for the conversion of query values.\<close>

definition ex_digit :: "char \<Rightarrow> int option" where
  "ex_digit c =
     map_of [(CHR ''0'', 0), (CHR ''1'', 1), (CHR ''2'', 2), (CHR ''3'', 3), (CHR ''4'', 4),
             (CHR ''5'', 5), (CHR ''6'', 6), (CHR ''7'', 7), (CHR ''8'', 8), (CHR ''9'', 9)] c"

fun ex_digits :: "int \<Rightarrow> string \<Rightarrow> int option" where
  "ex_digits acc [] = Some acc"
| "ex_digits acc (c # cs) =
     (case ex_digit c of None \<Rightarrow> None | Some d \<Rightarrow> ex_digits (10 * acc + d) cs)"

definition ex_to_int :: "string \<Rightarrow> int option" where
  "ex_to_int s = (if s = [] then None else ex_digits 0 s)"

text \<open>A join that rejects a parent-directory component, and a file system that is the
  list of the paths that exist: removing a path that does not exist raises.\<close>

definition ex_safe_join :: "string \<Rightarrow> string list \<Rightarrow> string option" where
  "ex_safe_join directory pathnames =
     (if ''..'' \<in> set pathnames then None
      else Some (foldl (\<lambda>a b. a @ ''/'' @ b) directory pathnames))"

definition ex_os_remove :: "string \<Rightarrow> string list \<Rightarrow> exn option \<times> string list" where
  "ex_os_remove path fs =
     (if path \<in> set fs then (None, removeAll path fs) else (Some (OSError path), fs))"

definition ex_flask :: "(string \<rightharpoonup> string) \<Rightarrow> string list flask" where
  "ex_flask args =
     \<lparr>request_args = args,
      to_int = ex_to_int,
      has_permission = (\<lambda>u p. p = ''admin'' \<and> u_username u = ''root''),
      config = [''UPLOAD_FOLDER'' \<mapsto> ''/srv/uploads''],
      safe_join = ex_safe_join,
      os_remove = ex_os_remove\<rparr>"

definition ex_cat :: UploadedFile where
  "ex_cat = \<lparr>f_id = 7, f_user_id = 1, f_current_name = ''cat.png''\<rparr>"

definition ex_dog :: UploadedFile where
  "ex_dog = \<lparr>f_id = 8, f_user_id = 2, f_current_name = ''dog.png''\<rparr>"

definition ex_orphan :: UploadedFile where
  "ex_orphan = \<lparr>f_id = 9, f_user_id = 42, f_current_name = ''old.png''\<rparr>"

text \<open>Three files on record; only the bytes of the first are on disk, and the owner of
  the third has no user row.\<close>

definition ex_uploads_world :: "string list uploads_world" where
  "ex_uploads_world =
     \<lparr>trace = [],
      uploaded_files = [ex_cat, ex_dog, ex_orphan],
      users = [ex_alice, ex_bob, ex_root],
      filesystem = [''/srv/uploads/1001/cat.png'']\<rparr>"

text \<open>Only bob has a linked account; alice and bob each hold a token issued earlier.\<close>

definition ex_get_byond_ckey :: "User \<Rightarrow> string option" where
  "ex_get_byond_ckey u = (if u_username u = ''bob'' then Some ''bobkey'' else None)"

definition ex_token_hex :: "nat \<Rightarrow> string" where
  "ex_token_hex n = replicate (2 * n) CHR ''f''"

definition ex_hub_world :: hub_world where
  "ex_hub_world =
     \<lparr>trace = [],
      tokens = [\<lparr>t_token = ''aa'', t_discord_user_id = ''1001''\<rparr>,
                \<lparr>t_token = ''bb'', t_discord_user_id = ''1002''\<rparr>],
      session_new = []\<rparr>"

section \<open>Properties\<close>

subsection \<open>Auxiliary facts\<close>

lemmas settings_steps =
  form_validate_on_submit_def apply_changeset_def form_populate_errors_def
  emit_def flash_def logger_exception_def

lemmas settings_posts =
  UserSettings_post_def ChangePassword_post_def ChangeEmail_post_def ChangeUserDetails_post_def

lemmas settings_renders =
  UserSettings_render_def ChangePassword_render_def ChangeEmail_render_def
  ChangeUserDetails_render_def

lemmas settings_redirects =
  UserSettings_redirect_def ChangePassword_redirect_def ChangeEmail_redirect_def
  ChangeUserDetails_redirect_def

lemmas ex_settings =
  ex_form_methods_def ex_handler_def ex_settings_world_def

lemmas ex_uploads =
  ex_flask_def ex_uploads_world_def ex_cat_def ex_dog_def ex_orphan_def ex_alice_def
  ex_bob_def ex_root_def ex_to_int_def ex_digit_def ex_safe_join_def ex_os_remove_def
  DeleteFile_file_id_def args_get_def

lemmas ex_hub =
  ex_hub_world_def ex_get_byond_ckey_def ex_token_hex_def ex_alice_def ex_bob_def

text \<open>The first row a filter selects is the first row of the table that satisfies the
  condition.\<close>

lemma first_or_404_filter:
  "first_or_404 (filter P rows) =
     (case List.find P rows of None \<Rightarrow> Inl NotFound | Some r \<Rightarrow> Inr r)"
  by (induction rows) (simp_all add: first_or_404_def)

lemma tokens_for_other_key:
  "k \<noteq> key \<Longrightarrow>
     tokens_for k (filter (\<lambda>t. t_discord_user_id t \<noteq> key) ts @ [new]) =
       tokens_for k ts @ tokens_for k [new]"
  by (induction ts) (auto simp: tokens_for_def)

lemma tokens_for_deleted_key:
  "tokens_for key (filter (\<lambda>t. t_discord_user_id t \<noteq> key) ts) = []"
  by (induction ts) (auto simp: tokens_for_def)

lemma one_token_each_iff:
  "one_token_each ts \<longleftrightarrow> (\<forall>k. length (tokens_for k ts) \<le> 1)"
proof
  assume inv: "one_token_each ts"
  show "\<forall>k. length (tokens_for k ts) \<le> 1"
  proof
    fix k
    show "length (tokens_for k ts) \<le> 1"
    proof (cases "\<exists>t \<in> set ts. t_discord_user_id t = k")
      case True
      then obtain t where "t \<in> set ts" and "t_discord_user_id t = k" by blast
      with inv show ?thesis by (auto simp: one_token_each_def list_all_iff)
    next
      case False
      then have "tokens_for k ts = []" by (simp add: tokens_for_def filter_empty_conv)
      then show ?thesis by simp
    qed
  qed
next
  assume "\<forall>k. length (tokens_for k ts) \<le> 1"
  then show "one_token_each ts" by (simp add: one_token_each_def list_all_iff)
qed

subsection \<open>The settings views\<close>

text \<open>
  Claim C1.  In each of the four settings views, when the form is syntactically valid
  and \<open>apply_changeset\<close> raises \<open>StopValidation\<close> with reasons \<open>rs\<close>, the view
  writes \<open>rs\<close> into the form with \<open>populate_errors\<close> and answers with the rendered
  form page.  The answer is no redirect, and the only effects are the validation, the
  handler call and \<open>populate_errors\<close>: nothing is flashed, so no success notification
  is emitted.
\<close>

theorem settings_stop_validation_rerenders:
  assumes "validate_on_submit F (form w) = (True, f')"
    and "handler current_user (as_change F f') (db w) = (Some (StopValidation rs), db')"
  shows "let w' = w\<lparr>trace := trace w @ [Validate_on_submit, Apply_changeset, Populate_errors rs],
                     form := populate_errors F rs f', db := db'\<rparr> in
         UserSettings_post F handler current_user w
           = (Inr (Render_template ''user/general_settings.html''), w') \<and>
         ChangePassword_post F handler current_user w
           = (Inr (Render_template ''user/change_password.html''), w') \<and>
         ChangeEmail_post F handler current_user w
           = (Inr (Render_template ''user/change_email.html''), w') \<and>
         ChangeUserDetails_post F handler current_user w
           = (Inr (Render_template ''user/change_user_details.html''), w')"
  using assms
  by (simp add: Let_def settings_posts settings_renders settings_steps)

theorem settings_stop_validation_rerenders_witness:
  "UserSettings_post ex_form_methods ex_handler ex_alice (ex_settings_world ''a@x.io'')
     = (Inr (Render_template ''user/general_settings.html''),
        \<lparr>trace = [Validate_on_submit, Apply_changeset, Populate_errors [(''email'', ''in use'')]],
         form = \<lparr>entered = ''a@x.io'', errors = [(''email'', ''in use'')]\<rparr>,
         db = [''a@x.io'']\<rparr>)"
  using settings_stop_validation_rerenders [of ex_form_methods "ex_settings_world ''a@x.io''"
      "\<lparr>entered = ''a@x.io'', errors = []\<rparr>" ex_handler ex_alice "[(''email'', ''in use'')]"
      "[''a@x.io'']"]
  by (simp add: ex_settings Let_def)

text \<open>
  Claim C2.  In each of the four settings views, when the form is syntactically valid
  and \<open>apply_changeset\<close> raises \<open>PersistenceError\<close>, the view logs the failure with
  \<open>logger.exception\<close>, flashes the view's generic error message in the category
  \<open>danger\<close>, and answers with the redirect to the view's own address.  The form is
  not rendered and \<open>populate_errors\<close> is not called.
\<close>

theorem settings_persistence_error_redirects:
  assumes "validate_on_submit F (form w) = (True, f')"
    and "handler current_user (as_change F f') (db w) = (Some PersistenceError, db')"
  shows "UserSettings_post F handler current_user w
           = (Inr (Redirect (Url_for ''user.settings'' [])),
              w\<lparr>trace := trace w @ [Validate_on_submit, Apply_changeset,
                   Logger_exception ''Error while updating user settings'',
                   Flash (Gettext ''Error while updating user settings'') ''danger''],
                form := f', db := db'\<rparr>) \<and>
         ChangePassword_post F handler current_user w
           = (Inr (Redirect (Url_for ''user.change_password'' [])),
              w\<lparr>trace := trace w @ [Validate_on_submit, Apply_changeset,
                   Logger_exception ''Error while changing password'',
                   Flash (Gettext ''Error while changing password'') ''danger''],
                form := f', db := db'\<rparr>) \<and>
         ChangeEmail_post F handler current_user w
           = (Inr (Redirect (Url_for ''user.change_email'' [])),
              w\<lparr>trace := trace w @ [Validate_on_submit, Apply_changeset,
                   Logger_exception ''Error while updating email'',
                   Flash (Gettext ''Error while updating email'') ''danger''],
                form := f', db := db'\<rparr>) \<and>
         ChangeUserDetails_post F handler current_user w
           = (Inr (Redirect (Url_for ''user.change_user_details'' [])),
              w\<lparr>trace := trace w @ [Validate_on_submit, Apply_changeset,
                   Logger_exception ''Error while updating user details'',
                   Flash (Gettext ''Error while updating user details'') ''danger''],
                form := f', db := db'\<rparr>)"
  using assms
  by (simp add: settings_posts settings_redirects settings_steps)

theorem settings_persistence_error_redirects_witness:
  "ChangePassword_post ex_form_methods ex_handler ex_alice (ex_settings_world ''toolong@x.io'')
     = (Inr (Redirect (Url_for ''user.change_password'' [])),
        \<lparr>trace = [Validate_on_submit, Apply_changeset,
                  Logger_exception ''Error while changing password'',
                  Flash (Gettext ''Error while changing password'') ''danger''],
         form = \<lparr>entered = ''toolong@x.io'', errors = []\<rparr>,
         db = [''a@x.io'']\<rparr>)"
  using settings_persistence_error_redirects [of ex_form_methods
      "ex_settings_world ''toolong@x.io''" "\<lparr>entered = ''toolong@x.io'', errors = []\<rparr>"
      ex_handler ex_alice "[''a@x.io'']"]
  by (simp add: ex_settings)

text \<open>
  Claim C7.  In each of the four settings views, a POST whose form fails
  \<open>validate_on_submit\<close> answers with the rendered form page; the only effect is the
  validation itself, whatever the update handler is: \<open>apply_changeset\<close> is not called
  and the persistent state is untouched.  A GET answers with the rendered form page and
  has no effect at all.
\<close>

theorem settings_invalid_form_rerenders:
  assumes "validate_on_submit F (form w) = (False, f')"
  shows "let w' = w\<lparr>trace := trace w @ [Validate_on_submit], form := f'\<rparr> in
         UserSettings_post F handler current_user w
           = (Inr (Render_template ''user/general_settings.html''), w') \<and>
         ChangePassword_post F handler current_user w
           = (Inr (Render_template ''user/change_password.html''), w') \<and>
         ChangeEmail_post F handler current_user w
           = (Inr (Render_template ''user/change_email.html''), w') \<and>
         ChangeUserDetails_post F handler current_user w
           = (Inr (Render_template ''user/change_user_details.html''), w') \<and>
         db w' = db w \<and>
         UserSettings_get w = (Inr (Render_template ''user/general_settings.html''), w) \<and>
         ChangePassword_get w = (Inr (Render_template ''user/change_password.html''), w) \<and>
         ChangeEmail_get w = (Inr (Render_template ''user/change_email.html''), w) \<and>
         ChangeUserDetails_get w = (Inr (Render_template ''user/change_user_details.html''), w)"
  using assms
  by (simp add: Let_def settings_posts settings_renders settings_steps
      UserSettings_get_def ChangePassword_get_def ChangeEmail_get_def ChangeUserDetails_get_def)

theorem settings_invalid_form_rerenders_witness:
  "ChangeEmail_post ex_form_methods ex_handler ex_alice (ex_settings_world [])
     = (Inr (Render_template ''user/change_email.html''),
        \<lparr>trace = [Validate_on_submit],
         form = \<lparr>entered = [], errors = [(''email'', ''required'')]\<rparr>,
         db = [''a@x.io'']\<rparr>)
   \<and> ChangeEmail_get (ex_settings_world [])
     = (Inr (Render_template ''user/change_email.html''), ex_settings_world [])"
  using settings_invalid_form_rerenders [of ex_form_methods "ex_settings_world []"
      "\<lparr>entered = [], errors = [(''email'', ''required'')]\<rparr>" ex_handler ex_alice]
  by (simp add: ex_settings Let_def)

text \<open>
  Claim C8.  In each of the four settings views, when the form is syntactically valid
  and \<open>apply_changeset\<close> returns normally, the view flashes its success message in the
  category \<open>success\<close> and answers with the redirect to its own address.  The state
  that comes with the redirect holds what the handler persisted, and in its trace the
  handler call comes first and the notification after it.
\<close>

theorem settings_success_flashes_then_redirects:
  assumes "validate_on_submit F (form w) = (True, f')"
    and "handler current_user (as_change F f') (db w) = (None, db')"
  shows "UserSettings_post F handler current_user w
           = (Inr (Redirect (Url_for ''user.settings'' [])),
              w\<lparr>trace := trace w @ [Validate_on_submit, Apply_changeset,
                   Flash (Gettext ''Settings updated.'') ''success''],
                form := f', db := db'\<rparr>) \<and>
         ChangePassword_post F handler current_user w
           = (Inr (Redirect (Url_for ''user.change_password'' [])),
              w\<lparr>trace := trace w @ [Validate_on_submit, Apply_changeset,
                   Flash (Gettext ''Password updated.'') ''success''],
                form := f', db := db'\<rparr>) \<and>
         ChangeEmail_post F handler current_user w
           = (Inr (Redirect (Url_for ''user.change_email'' [])),
              w\<lparr>trace := trace w @ [Validate_on_submit, Apply_changeset,
                   Flash (Gettext ''Email address updated.'') ''success''],
                form := f', db := db'\<rparr>) \<and>
         ChangeUserDetails_post F handler current_user w
           = (Inr (Redirect (Url_for ''user.change_user_details'' [])),
              w\<lparr>trace := trace w @ [Validate_on_submit, Apply_changeset,
                   Flash (Gettext ''User details updated.'') ''success''],
                form := f', db := db'\<rparr>)"
  using assms
  by (simp add: settings_posts settings_redirects settings_steps)

theorem settings_success_flashes_then_redirects_witness:
  "ChangeUserDetails_post ex_form_methods ex_handler ex_alice (ex_settings_world ''b@x.io'')
     = (Inr (Redirect (Url_for ''user.change_user_details'' [])),
        \<lparr>trace = [Validate_on_submit, Apply_changeset,
                  Flash (Gettext ''User details updated.'') ''success''],
         form = \<lparr>entered = ''b@x.io'', errors = []\<rparr>,
         db = [''b@x.io'', ''a@x.io'']\<rparr>)"
  using settings_success_flashes_then_redirects [of ex_form_methods
      "ex_settings_world ''b@x.io''" "\<lparr>entered = ''b@x.io'', errors = []\<rparr>"
      ex_handler ex_alice "[''b@x.io'', ''a@x.io'']"]
  by (simp add: ex_settings)

subsection \<open>Deleting an uploaded file\<close>

text \<open>
  Claim C3.  When the requested file record and its owner resolve, the principal's
  identity is not the owner's and the principal lacks the permission \<open>admin\<close>,
  \<open>DeleteFile.post\<close> answers with the redirect to the uploads page.  Its only effect
  is one warning written to the log, whose arguments are the file record, the owner,
  the owner's external identity, and the principal's user name and external identity.
  The table of file records and the file system are as before.
\<close>

theorem delete_file_unauthorized_keeps_file:
  assumes "List.find (\<lambda>f. f_id f = DeleteFile_file_id env) (uploaded_files w) = Some file_record"
    and "List.find (\<lambda>u. u_id u = f_user_id file_record) (users w) = Some file_owner"
    and "u_id file_owner \<noteq> u_id current_user"
    and "\<not> has_permission env current_user ''admin''"
  shows "DeleteFile_post env current_user w
           = (Inr (Redirect (Url_for ''user.user_uploads'' [])),
              w\<lparr>trace := trace w @
                 [Logger_warn
                    ''File {}(owned by:{}, discord:{}) was tried to be deleted by {}(discord:{})''
                    [Arg_file file_record, Arg_user file_owner, Arg_str (u_discord file_owner),
                     Arg_str (u_username current_user), Arg_str (u_discord current_user)]]\<rparr>)
         \<and> uploaded_files (snd (DeleteFile_post env current_user w)) = uploaded_files w
         \<and> filesystem (snd (DeleteFile_post env current_user w)) = filesystem w"
  using assms
  by (simp add: DeleteFile_post_def first_or_404_filter DeleteFile_redirect_def
      logger_warn_def emit_def)

theorem delete_file_unauthorized_keeps_file_witness:
  "DeleteFile_post (ex_flask [''file_id'' \<mapsto> ''7'']) ex_bob ex_uploads_world
     = (Inr (Redirect (Url_for ''user.user_uploads'' [])),
        ex_uploads_world\<lparr>trace :=
           [Logger_warn
              ''File {}(owned by:{}, discord:{}) was tried to be deleted by {}(discord:{})''
              [Arg_file ex_cat, Arg_user ex_alice, Arg_str ''1001'', Arg_str ''bob'',
               Arg_str ''1002'']]\<rparr>)"
  using delete_file_unauthorized_keeps_file [of "ex_flask [''file_id'' \<mapsto> ''7'']"
      ex_uploads_world ex_cat ex_alice ex_bob]
  by (simp add: ex_uploads)

text \<open>
  Claim C9.  When the request is authorized and the path is built, but \<open>os.remove\<close>
  raises, the exception leaves \<open>DeleteFile.post\<close> as it is: the view has no handler
  for it.  The effects so far are the info log line and the call of \<open>os.remove\<close>;
  \<open>delete\<close> is not called and nothing is flashed, so the table of file records is
  as before.
\<close>

theorem delete_file_remove_failure_propagates:
  assumes "List.find (\<lambda>f. f_id f = DeleteFile_file_id env) (uploaded_files w) = Some file_record"
    and "List.find (\<lambda>u. u_id u = f_user_id file_record) (users w) = Some file_owner"
    and "u_id file_owner = u_id current_user \<or> has_permission env current_user ''admin''"
    and "config env ''UPLOAD_FOLDER'' = Some upload_folder"
    and "safe_join env upload_folder [u_discord file_owner, f_current_name file_record] = Some path"
    and "os_remove env path (filesystem w) = (Some e, fs')"
  shows "DeleteFile_post env current_user w
           = (Inl e,
              w\<lparr>trace := trace w @
                 [Logger_info
                    ''File {}(owned by:{}, discord:{})) was deleted by {}(discord:{})''
                    [Arg_file file_record, Arg_user file_owner, Arg_str (u_discord file_owner),
                     Arg_str (u_username current_user), Arg_str (u_discord current_user)],
                  Os_remove path],
                filesystem := fs'\<rparr>)
         \<and> uploaded_files (snd (DeleteFile_post env current_user w)) = uploaded_files w"
  using assms
  by (simp add: DeleteFile_post_def first_or_404_filter remove_path_def logger_info_def emit_def)

theorem delete_file_remove_failure_propagates_witness:
  "DeleteFile_post (ex_flask [''file_id'' \<mapsto> ''8'']) ex_bob ex_uploads_world
     = (Inl (OSError ''/srv/uploads/1002/dog.png''),
        ex_uploads_world\<lparr>trace :=
           [Logger_info
              ''File {}(owned by:{}, discord:{})) was deleted by {}(discord:{})''
              [Arg_file ex_dog, Arg_user ex_bob, Arg_str ''1002'', Arg_str ''bob'',
               Arg_str ''1002''],
            Os_remove ''/srv/uploads/1002/dog.png'']\<rparr>)
   \<and> uploaded_files (snd (DeleteFile_post (ex_flask [''file_id'' \<mapsto> ''8'']) ex_bob
         ex_uploads_world)) = [ex_cat, ex_dog, ex_orphan]"
  using delete_file_remove_failure_propagates [of "ex_flask [''file_id'' \<mapsto> ''8'']"
      ex_uploads_world ex_dog ex_bob ex_bob "''/srv/uploads''" "''/srv/uploads/1002/dog.png''"
      "OSError ''/srv/uploads/1002/dog.png''" "[''/srv/uploads/1001/cat.png'']"]
  by (simp add: ex_uploads)

text \<open>
  Claim C10.  When the query has no \<open>file_id\<close>, or its value is one the conversion
  \<open>int\<close> rejects, the identity the view looks up is 0.  When no file record has the
  identity 0 the view then raises \<open>NotFound\<close> and the state is untouched: nothing is
  logged, removed or deleted, whatever the principal's permissions are.
\<close>

theorem delete_file_bad_id_is_zero:
  assumes "request_args env ''file_id'' = None
           \<or> (\<exists>s. request_args env ''file_id'' = Some s \<and> to_int env s = None)"
  shows "DeleteFile_file_id env = 0
         \<and> ((\<forall>f \<in> set (uploaded_files w). f_id f \<noteq> 0)
              \<longrightarrow> DeleteFile_post env current_user w = (Inl NotFound, w))"
proof -
  from assms have zero: "DeleteFile_file_id env = 0"
    by (auto simp: DeleteFile_file_id_def args_get_def)
  have "DeleteFile_post env current_user w = (Inl NotFound, w)"
    if "\<forall>f \<in> set (uploaded_files w). f_id f \<noteq> 0"
  proof -
    from that have "filter (\<lambda>f. f_id f = 0) (uploaded_files w) = []"
      by (simp add: filter_empty_conv)
    then show ?thesis
      by (simp add: DeleteFile_post_def zero first_or_404_def)
  qed
  with zero show ?thesis by blast
qed

theorem delete_file_bad_id_is_zero_witness:
  "DeleteFile_file_id (ex_flask [''file_id'' \<mapsto> ''abc'']) = 0
   \<and> DeleteFile_post (ex_flask [''file_id'' \<mapsto> ''abc'']) ex_root ex_uploads_world
       = (Inl NotFound, ex_uploads_world)
   \<and> DeleteFile_file_id (ex_flask Map.empty) = 0
   \<and> DeleteFile_post (ex_flask Map.empty) ex_root ex_uploads_world
       = (Inl NotFound, ex_uploads_world)"
  using delete_file_bad_id_is_zero [of "ex_flask [''file_id'' \<mapsto> ''abc'']" ex_uploads_world ex_root]
    delete_file_bad_id_is_zero [of "ex_flask Map.empty" ex_uploads_world ex_root]
  by (simp add: ex_flask_def ex_uploads_world_def ex_cat_def ex_dog_def ex_orphan_def
      ex_to_int_def ex_digit_def)

text \<open>
  Claim C4, as stated, lists the steps of the view as: resolve the record, resolve the
  owner, authorize, remove the bytes, delete the record, notify success, redirect, and
  says these are exactly the steps.  When alice deletes her own file the effects of the
  view are four, not the three the list gives: before \<open>os.remove\<close> the view writes an
  info line to the log.
\<close>

theorem delete_file_listed_steps_counterexample:
  "trace (snd (DeleteFile_post (ex_flask [''file_id'' \<mapsto> ''7'']) ex_alice ex_uploads_world))
     = [Logger_info ''File {}(owned by:{}, discord:{})) was deleted by {}(discord:{})''
          [Arg_file ex_cat, Arg_user ex_alice, Arg_str ''1001'', Arg_str ''alice'',
           Arg_str ''1001''],
        Os_remove ''/srv/uploads/1001/cat.png'',
        Record_delete ex_cat,
        Flash (Gettext ''File deleted.'') ''success'']
   \<and> trace (snd (DeleteFile_post (ex_flask [''file_id'' \<mapsto> ''7'']) ex_alice ex_uploads_world))
     \<noteq> [Os_remove ''/srv/uploads/1001/cat.png'',
        Record_delete ex_cat,
        Flash (Gettext ''File deleted.'') ''success'']"
  by (simp add: DeleteFile_post_def first_or_404_def remove_path_def record_delete_def
      DeleteFile_redirect_def logger_info_def flash_def emit_def ex_uploads)

text \<open>
  Claim C4, amended.  \<open>DeleteFile.post\<close> goes through these steps in this order.
  It resolves the file record by identity, and raises \<open>NotFound\<close> with the state
  untouched when there is none.  It resolves the owner, and raises \<open>NotFound\<close> with
  the state untouched when there is none.  It authorizes: a principal who is neither
  the owner nor an administrator gets the redirect, with a warning in the log as the
  only effect.  Otherwise, with the upload root configured and the join of the root,
  the owner's external identity and the file's stored name accepted as \<open>path\<close>, and
  \<open>os.remove\<close> returning normally, the effects are, in this order: an info line in
  the log naming the file, the owner and the principal; the removal of \<open>path\<close>; the
  deletion of the record; the success notification.  The answer is the redirect to the
  uploads page.
\<close>

theorem delete_file_steps:
  "(List.find (\<lambda>f. f_id f = DeleteFile_file_id env) (uploaded_files w) = None
      \<longrightarrow> DeleteFile_post env current_user w = (Inl NotFound, w))
   \<and> (List.find (\<lambda>f. f_id f = DeleteFile_file_id env) (uploaded_files w) = Some file_record
      \<and> List.find (\<lambda>u. u_id u = f_user_id file_record) (users w) = None
      \<longrightarrow> DeleteFile_post env current_user w = (Inl NotFound, w))
   \<and> (List.find (\<lambda>f. f_id f = DeleteFile_file_id env) (uploaded_files w) = Some file_record
      \<and> List.find (\<lambda>u. u_id u = f_user_id file_record) (users w) = Some file_owner
      \<and> \<not> (u_id file_owner = u_id current_user \<or> has_permission env current_user ''admin'')
      \<longrightarrow> DeleteFile_post env current_user w
           = (Inr (Redirect (Url_for ''user.user_uploads'' [])),
              w\<lparr>trace := trace w @
                 [Logger_warn
                    ''File {}(owned by:{}, discord:{}) was tried to be deleted by {}(discord:{})''
                    [Arg_file file_record, Arg_user file_owner, Arg_str (u_discord file_owner),
                     Arg_str (u_username current_user), Arg_str (u_discord current_user)]]\<rparr>))
   \<and> (List.find (\<lambda>f. f_id f = DeleteFile_file_id env) (uploaded_files w) = Some file_record
      \<and> List.find (\<lambda>u. u_id u = f_user_id file_record) (users w) = Some file_owner
      \<and> (u_id file_owner = u_id current_user \<or> has_permission env current_user ''admin'')
      \<and> config env ''UPLOAD_FOLDER'' = Some upload_folder
      \<and> safe_join env upload_folder [u_discord file_owner, f_current_name file_record] = Some path
      \<and> os_remove env path (filesystem w) = (None, fs')
      \<longrightarrow> DeleteFile_post env current_user w
           = (Inr (Redirect (Url_for ''user.user_uploads'' [])),
              w\<lparr>trace := trace w @
                 [Logger_info
                    ''File {}(owned by:{}, discord:{})) was deleted by {}(discord:{})''
                    [Arg_file file_record, Arg_user file_owner, Arg_str (u_discord file_owner),
                     Arg_str (u_username current_user), Arg_str (u_discord current_user)],
                  Os_remove path,
                  Record_delete file_record,
                  Flash (Gettext ''File deleted.'') ''success''],
                uploaded_files := filter (\<lambda>f. f_id f \<noteq> f_id file_record) (uploaded_files w),
                filesystem := fs'\<rparr>))"
proof (intro conjI impI)
  assume "List.find (\<lambda>f. f_id f = DeleteFile_file_id env) (uploaded_files w) = None"
  then show "DeleteFile_post env current_user w = (Inl NotFound, w)"
    by (simp add: DeleteFile_post_def first_or_404_filter)
next
  assume "List.find (\<lambda>f. f_id f = DeleteFile_file_id env) (uploaded_files w) = Some file_record
      \<and> List.find (\<lambda>u. u_id u = f_user_id file_record) (users w) = None"
  then show "DeleteFile_post env current_user w = (Inl NotFound, w)"
    by (simp add: DeleteFile_post_def first_or_404_filter)
next
  assume "List.find (\<lambda>f. f_id f = DeleteFile_file_id env) (uploaded_files w) = Some file_record
      \<and> List.find (\<lambda>u. u_id u = f_user_id file_record) (users w) = Some file_owner
      \<and> \<not> (u_id file_owner = u_id current_user \<or> has_permission env current_user ''admin'')"
  then show "DeleteFile_post env current_user w
           = (Inr (Redirect (Url_for ''user.user_uploads'' [])),
              w\<lparr>trace := trace w @
                 [Logger_warn
                    ''File {}(owned by:{}, discord:{}) was tried to be deleted by {}(discord:{})''
                    [Arg_file file_record, Arg_user file_owner, Arg_str (u_discord file_owner),
                     Arg_str (u_username current_user), Arg_str (u_discord current_user)]]\<rparr>)"
    by (simp add: DeleteFile_post_def first_or_404_filter DeleteFile_redirect_def
        logger_warn_def emit_def)
next
  assume "List.find (\<lambda>f. f_id f = DeleteFile_file_id env) (uploaded_files w) = Some file_record
      \<and> List.find (\<lambda>u. u_id u = f_user_id file_record) (users w) = Some file_owner
      \<and> (u_id file_owner = u_id current_user \<or> has_permission env current_user ''admin'')
      \<and> config env ''UPLOAD_FOLDER'' = Some upload_folder
      \<and> safe_join env upload_folder [u_discord file_owner, f_current_name file_record] = Some path
      \<and> os_remove env path (filesystem w) = (None, fs')"
  then show "DeleteFile_post env current_user w
           = (Inr (Redirect (Url_for ''user.user_uploads'' [])),
              w\<lparr>trace := trace w @
                 [Logger_info
                    ''File {}(owned by:{}, discord:{})) was deleted by {}(discord:{})''
                    [Arg_file file_record, Arg_user file_owner, Arg_str (u_discord file_owner),
                     Arg_str (u_username current_user), Arg_str (u_discord current_user)],
                  Os_remove path,
                  Record_delete file_record,
                  Flash (Gettext ''File deleted.'') ''success''],
                uploaded_files := filter (\<lambda>f. f_id f \<noteq> f_id file_record) (uploaded_files w),
                filesystem := fs'\<rparr>)"
    by (simp add: DeleteFile_post_def first_or_404_filter remove_path_def record_delete_def
        DeleteFile_redirect_def logger_info_def flash_def emit_def)
qed

theorem delete_file_steps_witness:
  "DeleteFile_post (ex_flask [''file_id'' \<mapsto> ''5'']) ex_root ex_uploads_world
     = (Inl NotFound, ex_uploads_world)
   \<and> DeleteFile_post (ex_flask [''file_id'' \<mapsto> ''9'']) ex_root ex_uploads_world
     = (Inl NotFound, ex_uploads_world)
   \<and> DeleteFile_post (ex_flask [''file_id'' \<mapsto> ''8'']) ex_alice ex_uploads_world
     = (Inr (Redirect (Url_for ''user.user_uploads'' [])),
        ex_uploads_world\<lparr>trace :=
           [Logger_warn
              ''File {}(owned by:{}, discord:{}) was tried to be deleted by {}(discord:{})''
              [Arg_file ex_dog, Arg_user ex_bob, Arg_str ''1002'', Arg_str ''alice'',
               Arg_str ''1001'']]\<rparr>)
   \<and> DeleteFile_post (ex_flask [''file_id'' \<mapsto> ''7'']) ex_root ex_uploads_world
     = (Inr (Redirect (Url_for ''user.user_uploads'' [])),
        ex_uploads_world\<lparr>trace :=
           [Logger_info
              ''File {}(owned by:{}, discord:{})) was deleted by {}(discord:{})''
              [Arg_file ex_cat, Arg_user ex_alice, Arg_str ''1001'', Arg_str ''root'',
               Arg_str ''1003''],
            Os_remove ''/srv/uploads/1001/cat.png'',
            Record_delete ex_cat,
            Flash (Gettext ''File deleted.'') ''success''],
          uploaded_files := [ex_dog, ex_orphan],
          filesystem := []\<rparr>)"
  using delete_file_steps [of "ex_flask [''file_id'' \<mapsto> ''5'']" ex_uploads_world ex_root]
    delete_file_steps [of "ex_flask [''file_id'' \<mapsto> ''9'']" ex_uploads_world ex_root ex_orphan]
    delete_file_steps [of "ex_flask [''file_id'' \<mapsto> ''8'']" ex_uploads_world ex_alice ex_dog
      ex_bob]
    delete_file_steps [of "ex_flask [''file_id'' \<mapsto> ''7'']" ex_uploads_world ex_root ex_cat
      ex_alice "''/srv/uploads''" "''/srv/uploads/1001/cat.png''" "[]"]
  by (simp add: ex_uploads)

subsection \<open>Generating a linking token\<close>

text \<open>
  Claim C5.  When the principal has no linked account and the session holds no pending
  objects, \<open>GenerateToken.get\<close> first deletes every token whose key is the principal's
  external identity, so that the table holds none for that key, and only then adds the
  new token to the session and commits.  In the state that comes with the redirect the
  tokens for the key are the new token alone, the tokens of every other key are as
  before, and a table in which no identity had more than one token is again such a
  table.
\<close>

theorem generate_token_replaces_tokens:
  assumes "\<not> truthy (get_byond_ckey current_user)"
    and "session_new w = []"
  shows "let key = u_discord current_user;
             new_token = \<lparr>t_token = token_hex 16, t_discord_user_id = key\<rparr>;
             w' = snd (GenerateToken_get get_byond_ckey token_hex current_user userid w) in
         GenerateToken_get get_byond_ckey token_hex current_user userid w
           = (Inr (Redirect (Url_for ''user.profile'' [(''userid'', u_id current_user)])),
              w\<lparr>trace := trace w @
                   [Query_delete key, Session_add new_token, Session_commit,
                    Session_refresh new_token, Session_expunge_all,
                    Flash (Your_token (token_hex 16)) ''message''],
                tokens := filter (\<lambda>t. t_discord_user_id t \<noteq> key) (tokens w) @ [new_token],
                session_new := []\<rparr>)
         \<and> tokens_for key (tokens (Token_query_delete key w)) = []
         \<and> tokens_for key (tokens w') = [new_token]
         \<and> (\<forall>k. k \<noteq> key \<longrightarrow> tokens_for k (tokens w') = tokens_for k (tokens w))
         \<and> (one_token_each (tokens w) \<longrightarrow> one_token_each (tokens w'))"
proof -
  define key where "key = u_discord current_user"
  define new_token where "new_token = \<lparr>t_token = token_hex 16, t_discord_user_id = key\<rparr>"
  define w' where "w' = snd (GenerateToken_get get_byond_ckey token_hex current_user userid w)"
  have run: "GenerateToken_get get_byond_ckey token_hex current_user userid w
           = (Inr (Redirect (Url_for ''user.profile'' [(''userid'', u_id current_user)])),
              w\<lparr>trace := trace w @
                   [Query_delete key, Session_add new_token, Session_commit,
                    Session_refresh new_token, Session_expunge_all,
                    Flash (Your_token (token_hex 16)) ''message''],
                tokens := filter (\<lambda>t. t_discord_user_id t \<noteq> key) (tokens w) @ [new_token],
                session_new := []\<rparr>)"
    using assms
    by (simp add: GenerateToken_get_def GenerateToken_redirect_def Token_query_delete_def
        session_add_def session_commit_def session_refresh_def session_expunge_all_def
        flash_def emit_def key_def new_token_def Let_def)
  then have after: "tokens w' = filter (\<lambda>t. t_discord_user_id t \<noteq> key) (tokens w) @ [new_token]"
    by (simp add: w'_def)
  have deleted: "tokens_for key (tokens (Token_query_delete key w)) = []"
    by (simp add: Token_query_delete_def emit_def tokens_for_deleted_key)
  have own: "tokens_for key (tokens w') = [new_token]"
    using tokens_for_deleted_key [of key "tokens w"]
    by (simp add: after tokens_for_def new_token_def)
  have other: "tokens_for k (tokens w') = tokens_for k (tokens w)" if "k \<noteq> key" for k
    using that by (simp add: after tokens_for_other_key) (simp add: tokens_for_def new_token_def)
  have inv: "one_token_each (tokens w')" if "one_token_each (tokens w)"
    unfolding one_token_each_iff
  proof
    fix k
    from that have before: "length (tokens_for k (tokens w)) \<le> 1"
      by (simp add: one_token_each_iff)
    show "length (tokens_for k (tokens w')) \<le> 1"
    proof (cases "k = key")
      case True
      then show ?thesis by (simp add: own)
    next
      case False
      then show ?thesis using before by (simp add: other)
    qed
  qed
  from run deleted own other inv show ?thesis
    unfolding Let_def key_def [symmetric] new_token_def [symmetric] w'_def [symmetric]
    by blast
qed

theorem generate_token_replaces_tokens_witness:
  "GenerateToken_get ex_get_byond_ckey ex_token_hex ex_alice ''1'' ex_hub_world
     = (Inr (Redirect (Url_for ''user.profile'' [(''userid'', 1)])),
        \<lparr>trace =
           [Query_delete ''1001'',
            Session_add \<lparr>t_token = replicate 32 CHR ''f'', t_discord_user_id = ''1001''\<rparr>,
            Session_commit,
            Session_refresh \<lparr>t_token = replicate 32 CHR ''f'', t_discord_user_id = ''1001''\<rparr>,
            Session_expunge_all,
            Flash (Your_token (replicate 32 CHR ''f'')) ''message''],
         tokens = [\<lparr>t_token = ''bb'', t_discord_user_id = ''1002''\<rparr>,
                   \<lparr>t_token = replicate 32 CHR ''f'', t_discord_user_id = ''1001''\<rparr>],
         session_new = []\<rparr>)
   \<and> one_token_each (tokens ex_hub_world)
   \<and> one_token_each
       (tokens (snd (GenerateToken_get ex_get_byond_ckey ex_token_hex ex_alice ''1'' ex_hub_world)))"
proof -
  have linked: "\<not> truthy (ex_get_byond_ckey ex_alice)"
    by (simp add: truthy_def ex_hub)
  have fresh: "session_new ex_hub_world = []"
    by (simp add: ex_hub)
  have before: "one_token_each (tokens ex_hub_world)"
    by (simp add: one_token_each_def tokens_for_def ex_hub)
  note run = generate_token_replaces_tokens [where get_byond_ckey = ex_get_byond_ckey
      and current_user = ex_alice and w = ex_hub_world and token_hex = ex_token_hex
      and userid = "''1''", OF linked fresh, unfolded Let_def]
  show ?thesis
  proof (intro conjI)
    from run show "GenerateToken_get ex_get_byond_ckey ex_token_hex ex_alice ''1'' ex_hub_world
     = (Inr (Redirect (Url_for ''user.profile'' [(''userid'', 1)])),
        \<lparr>trace =
           [Query_delete ''1001'',
            Session_add \<lparr>t_token = replicate 32 CHR ''f'', t_discord_user_id = ''1001''\<rparr>,
            Session_commit,
            Session_refresh \<lparr>t_token = replicate 32 CHR ''f'', t_discord_user_id = ''1001''\<rparr>,
            Session_expunge_all,
            Flash (Your_token (replicate 32 CHR ''f'')) ''message''],
         tokens = [\<lparr>t_token = ''bb'', t_discord_user_id = ''1002''\<rparr>,
                   \<lparr>t_token = replicate 32 CHR ''f'', t_discord_user_id = ''1001''\<rparr>],
         session_new = []\<rparr>)"
      by (simp add: ex_hub)
    show "one_token_each (tokens ex_hub_world)"
      by (rule before)
    from run before show "one_token_each
       (tokens (snd (GenerateToken_get ex_get_byond_ckey ex_token_hex ex_alice ''1'' ex_hub_world)))"
      by blast
  qed
qed

text \<open>
  Claim C6.  When \<open>get_byond_ckey\<close> gives a true value for the principal,
  \<open>GenerateToken.get\<close> flashes the message that the account is already linked and
  answers with the redirect to the principal's profile.  That notification is its only
  effect: the token table and the session are as before, so a repeated request leaves
  them as before again.
\<close>

theorem generate_token_linked_noop:
  assumes "truthy (get_byond_ckey current_user)"
  shows "GenerateToken_get get_byond_ckey token_hex current_user userid w
           = (Inr (Redirect (Url_for ''user.profile'' [(''userid'', u_id current_user)])),
              w\<lparr>trace := trace w @
                   [Flash (Already_linked (get_byond_ckey current_user)) ''message'']\<rparr>)
         \<and> tokens (snd (GenerateToken_get get_byond_ckey token_hex current_user userid w))
             = tokens w
         \<and> session_new (snd (GenerateToken_get get_byond_ckey token_hex current_user userid w))
             = session_new w"
  using assms
  by (simp add: GenerateToken_get_def GenerateToken_redirect_def flash_def emit_def)

theorem generate_token_linked_noop_witness:
  "GenerateToken_get ex_get_byond_ckey ex_token_hex ex_bob ''2'' ex_hub_world
     = (Inr (Redirect (Url_for ''user.profile'' [(''userid'', 2)])),
        ex_hub_world\<lparr>trace := [Flash (Already_linked (Some ''bobkey'')) ''message'']\<rparr>)"
proof -
  have linked: "truthy (ex_get_byond_ckey ex_bob)"
    by (simp add: truthy_def ex_hub)
  show ?thesis
    using generate_token_linked_noop [where get_byond_ckey = ex_get_byond_ckey
        and current_user = ex_bob and w = ex_hub_world and token_hex = ex_token_hex
        and userid = "''2''"] linked
    by (simp add: ex_hub)
qed

end
